theory Spec2Isabelle
  imports Main "HOL-Library.Word"
begin

unbundle bit_operations_syntax

section \<open>Data model of gdb/common/enum-flags.h\<close>

text \<open>
  A value of a flags enumeration \<open>E\<close> is represented by the value it has in
  \<open>std::underlying_type<E>::type\<close>, the type parameter \<open>'u\<close>; the operators
  below take it to be a machine integer \<open>'w word\<close> of some width \<open>'w\<close>.
  The cast \<open>(enum_type) x\<close> is the constructor \<open>Enum\<close>, the conversion
  \<open>underlying (e)\<close> is the selector \<open>underlying\<close>.  The built-in operators
  \<open>|\<close>, \<open>&\<close>, \<open>^\<close> and \<open>~\<close> of C++ work on the promoted operands; converting
  their result back to the enumeration keeps the low \<open>'w\<close> bits, which is
  the operation of the same name on \<open>'w word\<close>.  Every value of the underlying
  type is taken to be a value of the enumeration, as it is for an enumeration
  with a fixed underlying type.
\<close>

datatype 'u enum_type = Enum (underlying: 'u)

text \<open>
  \<open>struct zero_type\<close> is private and incomplete: the only value of type
  \<open>zero_type *\<close> that a caller can pass is the null pointer.
\<close>

datatype zero_type_ptr = NULL

text \<open>The class \<open>enum_flags<E>\<close> has the single data member \<open>m_enum_value\<close>.\<close>

record 'u enum_flags =
  m_enum_value :: "'u enum_type"

subsection \<open>Constructors\<close>

text \<open>\<open>constexpr enum_flags (enum_type e) : m_enum_value (e) {}\<close>\<close>

definition enum_flags_of_enum :: "('w::len) word enum_type \<Rightarrow> 'w word enum_flags" where
  "enum_flags_of_enum e = \<lparr>m_enum_value = e\<rparr>"

text \<open>\<open>constexpr enum_flags (enum_flags::zero_type *zero) : m_enum_value ((enum_type) 0) {}\<close>\<close>

definition enum_flags_of_zero :: "zero_type_ptr \<Rightarrow> ('w::len) word enum_flags" where
  "enum_flags_of_zero zero = \<lparr>m_enum_value = Enum 0\<rparr>"

subsection \<open>Member functions\<close>

text \<open>
  The three compound assignments of the class assign to \<open>m_enum_value\<close> and
  return \<open>*this\<close>; the model returns the object after the assignment.
\<close>

definition and_assign :: "('w::len) word enum_flags \<Rightarrow> 'w word enum_flags \<Rightarrow> 'w word enum_flags" where
  "and_assign self e =
     self\<lparr>m_enum_value := Enum (underlying (m_enum_value self) AND underlying (m_enum_value e))\<rparr>"

definition or_assign :: "('w::len) word enum_flags \<Rightarrow> 'w word enum_flags \<Rightarrow> 'w word enum_flags" where
  "or_assign self e =
     self\<lparr>m_enum_value := Enum (underlying (m_enum_value self) OR underlying (m_enum_value e))\<rparr>"

definition xor_assign :: "('w::len) word enum_flags \<Rightarrow> 'w word enum_flags \<Rightarrow> 'w word enum_flags" where
  "xor_assign self e =
     self\<lparr>m_enum_value := Enum (underlying (m_enum_value self) XOR underlying (m_enum_value e))\<rparr>"

text \<open>\<open>constexpr operator underlying_type () const { return m_enum_value; }\<close>\<close>

definition to_underlying :: "('w::len) word enum_flags \<Rightarrow> 'w word" where
  "to_underlying self = underlying (m_enum_value self)"

text \<open>\<open>constexpr enum_type raw () const { return m_enum_value; }\<close>\<close>

definition raw :: "('w::len) word enum_flags \<Rightarrow> 'w word enum_type" where
  "raw self = m_enum_value self"

text \<open>
  Both readers are \<open>const\<close> members whose body is one \<open>return\<close>.  A call is a
  pair: the value returned and the object afterwards.
\<close>

definition call_to_underlying :: "('w::len) word enum_flags \<Rightarrow> 'w word \<times> 'w word enum_flags" where
  "call_to_underlying self = (to_underlying self, self)"

definition call_raw :: "('w::len) word enum_flags \<Rightarrow> 'w word enum_type \<times> 'w word enum_flags" where
  "call_raw self = (raw self, self)"

text \<open>\<open>constexpr enum_flags operator~ () const { return (enum_type) ~m_enum_value; }\<close>\<close>

definition not_flags :: "('w::len) word enum_flags \<Rightarrow> 'w word enum_flags" where
  "not_flags self = enum_flags_of_enum (Enum (NOT (underlying (m_enum_value self))))"

subsection \<open>Global operator overloads\<close>

text \<open>
  \<open>ENUM_FLAGS_GEN_BINOP (OPERATOR_OP, OP)\<close> is expanded three times, with
  \<open>|\<close>, \<open>&\<close> and \<open>^\<close>.  The macro argument is a value of \<open>binop\<close>.
\<close>

datatype binop = BitOr | BitAnd | BitXor

fun apply_binop :: "binop \<Rightarrow> ('w::len) word \<Rightarrow> 'w word \<Rightarrow> 'w word" where
  "apply_binop BitOr x y = x OR y"
| "apply_binop BitAnd x y = x AND y"
| "apply_binop BitXor x y = x XOR y"

text \<open>Raw enum on both sides: \<open>return (enum_type) (underlying (e1) OP underlying (e2));\<close>\<close>

definition binop_enum_enum :: "binop \<Rightarrow> ('w::len) word enum_type \<Rightarrow> 'w word enum_type \<Rightarrow> 'w word enum_type" where
  "binop_enum_enum OP e1 e2 = Enum (apply_binop OP (underlying e1) (underlying e2))"

text \<open>
  The other three overloads return \<open>enum_flags<enum_type>\<close>: the raw result of
  the first overload goes through the converting constructor.
\<close>

text \<open>\<open>enum_flags\<close> on the left: \<open>return e1.raw () OP e2;\<close>\<close>

definition binop_flags_enum :: "binop \<Rightarrow> ('w::len) word enum_flags \<Rightarrow> 'w word enum_type \<Rightarrow> 'w word enum_flags" where
  "binop_flags_enum OP e1 e2 = enum_flags_of_enum (binop_enum_enum OP (raw e1) e2)"

text \<open>\<open>enum_flags\<close> on the right: \<open>return e1 OP e2.raw ();\<close>\<close>

definition binop_enum_flags :: "binop \<Rightarrow> ('w::len) word enum_type \<Rightarrow> 'w word enum_flags \<Rightarrow> 'w word enum_flags" where
  "binop_enum_flags OP e1 e2 = enum_flags_of_enum (binop_enum_enum OP e1 (raw e2))"

text \<open>\<open>enum_flags\<close> on both sides: \<open>return e1.raw () OP e2.raw ();\<close>\<close>

definition binop_flags_flags :: "binop \<Rightarrow> ('w::len) word enum_flags \<Rightarrow> 'w word enum_flags \<Rightarrow> 'w word enum_flags" where
  "binop_flags_flags OP e1 e2 = enum_flags_of_enum (binop_enum_enum OP (raw e1) (raw e2))"

text \<open>
  \<open>ENUM_FLAGS_GEN_COMPOUND_ASSIGN (OPERATOR_OP, OP)\<close>, for a variable of the raw
  enumeration: \<open>return e1 = e1 OP e2;\<close>.  The lvalue and the rvalue reference
  versions have the same body.  The model returns the variable's new value.
\<close>

definition compound_assign_enum :: "binop \<Rightarrow> ('w::len) word enum_type \<Rightarrow> 'w word enum_type \<Rightarrow> 'w word enum_type" where
  "compound_assign_enum OP e1 e2 = binop_enum_enum OP e1 e2"

text \<open>The copy assignment \<open>a = v\<close> of either type: the variable holds \<open>v\<close> afterwards.\<close>

definition assign :: "'a \<Rightarrow> 'a \<Rightarrow> 'a" where
  "assign a v = v"

text \<open>
  Unary operator of the raw flags enum:
  \<open>return (enum_type) ~underlying (e);\<close>
\<close>

definition not_enum :: "('w::len) word enum_type \<Rightarrow> 'w word enum_type" where
  "not_enum e = Enum (NOT (underlying e))"

section \<open>The example enumeration of the header\<close>

text \<open>
  The header's own example, \<open>enum some_flag\<close> with \<open>flag_val1 = 1 << 1\<close> to
  \<open>flag_val4 = 1 << 4\<close>, on a 32-bit underlying type.
\<close>

definition flag_val1 :: "32 word enum_type" where "flag_val1 = Enum (push_bit 1 1)"
definition flag_val2 :: "32 word enum_type" where "flag_val2 = Enum (push_bit 2 1)"
definition flag_val3 :: "32 word enum_type" where "flag_val3 = Enum (push_bit 3 1)"
definition flag_val4 :: "32 word enum_type" where "flag_val4 = Enum (push_bit 4 1)"

definition some_flag :: "32 word enum_type list" where
  "some_flag = [flag_val1, flag_val2, flag_val3, flag_val4]"

section \<open>Values reachable through the public operations\<close>

text \<open>
  \<open>cs\<close> lists the declared constants (enumerators) of the enumeration.  A raw
  enumeration value or a wrapper value is reachable when it is built from the
  constants and the literal zero by the operations of the header.  The flag
  \<open>with_not\<close> says whether the two \<open>operator~\<close> are among them.
\<close>

inductive reach_enum :: "bool \<Rightarrow> ('w::len) word enum_type list \<Rightarrow> 'w word enum_type \<Rightarrow> bool"
  and reach_flags :: "bool \<Rightarrow> 'w word enum_type list \<Rightarrow> 'w word enum_flags \<Rightarrow> bool"
  for with_not :: bool and cs :: "'w word enum_type list"
where
  enumerator: "c \<in> set cs \<Longrightarrow> reach_enum with_not cs c"
| enum_enum: "reach_enum with_not cs e1 \<Longrightarrow> reach_enum with_not cs e2
    \<Longrightarrow> reach_enum with_not cs (binop_enum_enum OP e1 e2)"
| enum_compound: "reach_enum with_not cs e1 \<Longrightarrow> reach_enum with_not cs e2
    \<Longrightarrow> reach_enum with_not cs (compound_assign_enum OP e1 e2)"
| enum_not: "with_not \<Longrightarrow> reach_enum with_not cs e
    \<Longrightarrow> reach_enum with_not cs (not_enum e)"
| flags_raw: "reach_flags with_not cs f \<Longrightarrow> reach_enum with_not cs (raw f)"
| of_enum: "reach_enum with_not cs e \<Longrightarrow> reach_flags with_not cs (enum_flags_of_enum e)"
| of_zero: "reach_flags with_not cs (enum_flags_of_zero NULL)"
| flags_enum: "reach_flags with_not cs f1 \<Longrightarrow> reach_enum with_not cs e2
    \<Longrightarrow> reach_flags with_not cs (binop_flags_enum OP f1 e2)"
| enum_flags: "reach_enum with_not cs e1 \<Longrightarrow> reach_flags with_not cs f2
    \<Longrightarrow> reach_flags with_not cs (binop_enum_flags OP e1 f2)"
| flags_flags: "reach_flags with_not cs f1 \<Longrightarrow> reach_flags with_not cs f2
    \<Longrightarrow> reach_flags with_not cs (binop_flags_flags OP f1 f2)"
| flags_and_assign: "reach_flags with_not cs f1 \<Longrightarrow> reach_flags with_not cs f2
    \<Longrightarrow> reach_flags with_not cs (and_assign f1 f2)"
| flags_or_assign: "reach_flags with_not cs f1 \<Longrightarrow> reach_flags with_not cs f2
    \<Longrightarrow> reach_flags with_not cs (or_assign f1 f2)"
| flags_xor_assign: "reach_flags with_not cs f1 \<Longrightarrow> reach_flags with_not cs f2
    \<Longrightarrow> reach_flags with_not cs (xor_assign f1 f2)"
| flags_not: "with_not \<Longrightarrow> reach_flags with_not cs f
    \<Longrightarrow> reach_flags with_not cs (not_flags f)"

text \<open>The bitwise OR of a list of values; the empty list gives no flags.\<close>

fun or_list :: "('w::len) word list \<Rightarrow> 'w word" where
  "or_list [] = 0"
| "or_list (x # xs) = x OR or_list xs"

text \<open>A bit pattern is the OR of zero or more of the declared constants.\<close>

definition expressible :: "('w::len) word enum_type list \<Rightarrow> 'w word \<Rightarrow> bool" where
  "expressible cs v = (\<exists>ys \<in> set (subseqs cs). or_list (map underlying ys) = v)"

text \<open>A constant follows the convention of the header when it is \<open>1 << n\<close>.\<close>

definition single_bit :: "('w::len) word \<Rightarrow> bool" where
  "single_bit c = (\<exists>n \<in> set [0 ..< LENGTH('w)]. c = push_bit n 1)"

text \<open>The declared constants all follow the convention.\<close>

definition single_bit_constants :: "('w::len) word enum_type list \<Rightarrow> bool" where
  "single_bit_constants cs = list_all (\<lambda>c. single_bit (underlying c)) cs"

text \<open>Every bit of \<open>v\<close> is a bit of some declared constant.\<close>

definition covered :: "('w::len) word enum_type list \<Rightarrow> 'w word \<Rightarrow> bool" where
  "covered cs v = (\<forall>n. bit v n \<longrightarrow> (\<exists>c \<in> set cs. bit (underlying c) n))"

section \<open>Binary operators\<close>

text \<open>
  C1.  For each of the four operand shapes (raw/raw, wrapper/raw, raw/wrapper,
  wrapper/wrapper) over one enumeration, the operators \<open>|\<close>, \<open>&\<close> and \<open>^\<close>
  return a value whose underlying integer is the bitwise OR, AND, XOR of the
  operands' underlying integers.  The raw/raw overload returns the raw
  enumeration type, the other three the wrapper type, as the types of the
  four functions say.
\<close>

theorem binop_underlying:
  fixes e1 e2 :: "('w::len) word enum_type" and f1 f2 :: "'w word enum_flags"
  shows
    "underlying (binop_enum_enum BitOr e1 e2 :: 'w word enum_type) = underlying e1 OR underlying e2
   \<and> underlying (binop_enum_enum BitAnd e1 e2 :: 'w word enum_type) = underlying e1 AND underlying e2
   \<and> underlying (binop_enum_enum BitXor e1 e2 :: 'w word enum_type) = underlying e1 XOR underlying e2
   \<and> to_underlying (binop_flags_enum BitOr f1 e2 :: 'w word enum_flags) = to_underlying f1 OR underlying e2
   \<and> to_underlying (binop_flags_enum BitAnd f1 e2 :: 'w word enum_flags) = to_underlying f1 AND underlying e2
   \<and> to_underlying (binop_flags_enum BitXor f1 e2 :: 'w word enum_flags) = to_underlying f1 XOR underlying e2
   \<and> to_underlying (binop_enum_flags BitOr e1 f2 :: 'w word enum_flags) = underlying e1 OR to_underlying f2
   \<and> to_underlying (binop_enum_flags BitAnd e1 f2 :: 'w word enum_flags) = underlying e1 AND to_underlying f2
   \<and> to_underlying (binop_enum_flags BitXor e1 f2 :: 'w word enum_flags) = underlying e1 XOR to_underlying f2
   \<and> to_underlying (binop_flags_flags BitOr f1 f2 :: 'w word enum_flags) = to_underlying f1 OR to_underlying f2
   \<and> to_underlying (binop_flags_flags BitAnd f1 f2 :: 'w word enum_flags) = to_underlying f1 AND to_underlying f2
   \<and> to_underlying (binop_flags_flags BitXor f1 f2 :: 'w word enum_flags) = to_underlying f1 XOR to_underlying f2"
  by (simp add: binop_enum_enum_def binop_flags_enum_def binop_enum_flags_def
      binop_flags_flags_def enum_flags_of_enum_def to_underlying_def raw_def)


section \<open>Compound assignment\<close>

text \<open>
  C3.  For wrapper values \<open>a\<close> and \<open>b\<close>, the member \<open>a |= b\<close> leaves \<open>a\<close> with the
  same underlying integer as \<open>a = a | b\<close>, and likewise \<open>&=\<close> with \<open>&\<close> and
  \<open>^=\<close> with \<open>^\<close>; the same holds for the non-member compound assignments
  on a variable of the raw enumeration.
\<close>

theorem compound_assign_equiv:
  fixes a b :: "('w::len) word enum_flags" and e1 e2 :: "'w word enum_type"
  shows
    "to_underlying (or_assign a b) = to_underlying (assign a (binop_flags_flags BitOr a b))
   \<and> to_underlying (and_assign a b) = to_underlying (assign a (binop_flags_flags BitAnd a b))
   \<and> to_underlying (xor_assign a b) = to_underlying (assign a (binop_flags_flags BitXor a b))
   \<and> underlying (compound_assign_enum BitOr e1 e2) = underlying (assign e1 (binop_enum_enum BitOr e1 e2))
   \<and> underlying (compound_assign_enum BitAnd e1 e2) = underlying (assign e1 (binop_enum_enum BitAnd e1 e2))
   \<and> underlying (compound_assign_enum BitXor e1 e2) = underlying (assign e1 (binop_enum_enum BitXor e1 e2))"
  by (simp add: or_assign_def and_assign_def xor_assign_def assign_def binop_flags_flags_def
      binop_enum_enum_def compound_assign_enum_def enum_flags_of_enum_def to_underlying_def raw_def)

section \<open>Construction and reading\<close>

text \<open>
  C6.  A wrapper constructed from a value \<open>e\<close> of the enumeration stores \<open>e\<close>:
  \<open>raw ()\<close> returns \<open>e\<close>, the conversion to the underlying type returns the
  underlying integer of \<open>e\<close>, and the object after either call is the object
  before it.
\<close>

theorem construct_from_enum:
  fixes e :: "('w::len) word enum_type"
  shows "m_enum_value (enum_flags_of_enum e) = e
       \<and> call_raw (enum_flags_of_enum e) = (e, enum_flags_of_enum e)
       \<and> call_to_underlying (enum_flags_of_enum e) = (underlying e, enum_flags_of_enum e)"
  by (simp add: call_raw_def call_to_underlying_def raw_def to_underlying_def enum_flags_of_enum_def)

text \<open>
  C7.  For a wrapper type over any underlying width, construction from the
  literal \<open>0\<close> (the null \<open>zero_type *\<close>) gives a wrapper whose underlying
  integer is 0, the zero value of the enumeration.
\<close>

theorem construct_from_zero:
  "to_underlying (enum_flags_of_zero NULL :: ('w::len) word enum_flags) = 0
   \<and> raw (enum_flags_of_zero NULL :: 'w word enum_flags) = Enum 0"
  by (simp add: enum_flags_of_zero_def to_underlying_def raw_def)

section \<open>Bitwise NOT\<close>

text \<open>
  C5.  For every wrapper value \<open>f\<close>, the underlying integer of \<open>~(~f)\<close> is the
  underlying integer of \<open>f\<close>, and the underlying integer of \<open>~f\<close> is the one's
  complement of that of \<open>f\<close>.
\<close>

theorem not_not_flags:
  fixes f :: "('w::len) word enum_flags"
  shows "to_underlying (not_flags (not_flags f)) = to_underlying f
       \<and> to_underlying (not_flags f) = NOT (to_underlying f)"
  by (simp add: not_flags_def enum_flags_of_enum_def to_underlying_def)

text \<open>
  C9.  For every wrapper value \<open>f\<close>, the underlying integer of \<open>f & ~f\<close> is 0.
\<close>

theorem and_not_flags:
  fixes f :: "('w::len) word enum_flags"
  shows "to_underlying (binop_flags_flags BitAnd f (not_flags f)) = 0"
  by (simp add: binop_flags_flags_def binop_enum_enum_def not_flags_def enum_flags_of_enum_def
      to_underlying_def raw_def)

section \<open>Bit patterns of reachable values\<close>

lemma bit_or_list: "bit (or_list xs) n \<longleftrightarrow> (\<exists>x \<in> set xs. bit x n)"
  by (induction xs) (auto simp: bit_or_iff)

lemma filter_in_subseqs: "filter P xs \<in> set (subseqs xs)"
  by (induction xs) (auto simp: Let_def)

lemma single_bit_bit:
  fixes c :: "('w::len) word"
  assumes "single_bit c"
  shows "\<exists>m. \<forall>n. bit c n \<longleftrightarrow> n = m"
proof -
  from assms obtain m where m: "m < LENGTH('w)" and c: "c = 2 ^ m"
    by (auto simp: single_bit_def)
  have "bit c n \<longleftrightarrow> n = m" for n
    using m by (auto simp: c bit_exp_iff)
  then show ?thesis by blast
qed

lemma covered_expressible:
  fixes cs :: "('w::len) word enum_type list"
  assumes sbc: "single_bit_constants cs" and cov: "covered cs v"
  shows "expressible cs v"
proof -
  let ?ys = "filter (\<lambda>c. underlying c AND v \<noteq> 0) cs"
  from sbc have sb: "\<forall>c \<in> set cs. single_bit (underlying c)"
    by (simp add: single_bit_constants_def list_all_iff)
  have "or_list (map underlying ?ys) = v"
  proof (rule bit_word_eqI)
    fix n assume "n < LENGTH('w)"
    show "bit (or_list (map underlying ?ys)) n \<longleftrightarrow> bit v n"
    proof
      assume "bit (or_list (map underlying ?ys)) n"
      then obtain c where c: "c \<in> set cs" "underlying c AND v \<noteq> 0" "bit (underlying c) n"
        by (auto simp: bit_or_list)
      from sb c(1) have "single_bit (underlying c)" by blast
      then obtain m where m: "\<And>k. bit (underlying c) k \<longleftrightarrow> k = m"
        using single_bit_bit by blast
      from c(2) obtain k where "bit (underlying c AND v) k"
        by (auto simp: bit_eq_iff)
      then have "bit v m" by (auto simp: bit_and_iff m)
      moreover from c(3) have "n = m" by (simp add: m)
      ultimately show "bit v n" by simp
    next
      assume v: "bit v n"
      with cov obtain c where c: "c \<in> set cs" "bit (underlying c) n"
        by (auto simp: covered_def)
      with v have "bit (underlying c AND v) n" by (simp add: bit_and_iff)
      then have "underlying c AND v \<noteq> 0" by auto
      with c show "bit (or_list (map underlying ?ys)) n"
        by (auto simp: bit_or_list)
    qed
  qed
  moreover have "?ys \<in> set (subseqs cs)" by (rule filter_in_subseqs)
  ultimately show ?thesis unfolding expressible_def by blast
qed

lemma covered_binop:
  "covered cs x \<Longrightarrow> covered cs y \<Longrightarrow> covered cs (apply_binop OP x y)"
  by (cases OP) (auto simp: covered_def bit_or_iff bit_and_iff bit_xor_iff)

lemma reach_covered:
  "reach_enum wn cs e \<Longrightarrow> \<not> wn \<Longrightarrow> covered cs (underlying e)"
  "reach_flags wn cs f \<Longrightarrow> \<not> wn \<Longrightarrow> covered cs (to_underlying f)"
proof (induction rule: reach_enum_reach_flags.inducts)
  case (enumerator c)
  then show ?case by (auto simp: covered_def)
next
  case (of_zero)
  then show ?case by (simp add: covered_def enum_flags_of_zero_def to_underlying_def)
qed (simp_all add: covered_binop binop_enum_enum_def compound_assign_enum_def raw_def
      to_underlying_def enum_flags_of_enum_def binop_flags_enum_def binop_enum_flags_def
      binop_flags_flags_def and_assign_def or_assign_def xor_assign_def
      covered_binop [of _ _ _ BitAnd, simplified] covered_binop [of _ _ _ BitOr, simplified]
      covered_binop [of _ _ _ BitXor, simplified])

lemma some_flag_single_bit: "single_bit_constants some_flag"
  by code_simp

text \<open>
  C4, as amended.  When every declared constant is a single bit \<open>1 << n\<close>, every
  wrapper value reachable from the declared constants and the literal zero
  through the constructors, the operators \<open>|\<close>, \<open>&\<close>, \<open>^\<close> and the compound
  assignments, without \<open>operator~\<close>, has a bit pattern that is the bitwise OR
  of zero or more declared constants.
\<close>

theorem reachable_without_not_expressible:
  fixes cs :: "('w::len) word enum_type list"
  assumes "single_bit_constants cs" and "reach_flags False cs f"
  shows "expressible cs (to_underlying f)"
proof -
  from assms(2) have "covered cs (to_underlying f)"
    by (rule reach_covered(2)) simp
  with assms(1) show ?thesis
    by (rule covered_expressible)
qed

theorem reachable_without_not_expressible_witness:
  "single_bit_constants some_flag
   \<and> reach_flags False some_flag
       (or_assign (enum_flags_of_enum (binop_enum_enum BitOr flag_val1 flag_val2))
          (enum_flags_of_enum flag_val3))
   \<and> expressible some_flag (to_underlying
       (or_assign (enum_flags_of_enum (binop_enum_enum BitOr flag_val1 flag_val2))
          (enum_flags_of_enum flag_val3)))"
proof -
  have r: "reach_flags False some_flag
       (or_assign (enum_flags_of_enum (binop_enum_enum BitOr flag_val1 flag_val2))
          (enum_flags_of_enum flag_val3))"
    by (intro flags_or_assign of_enum enum_enum enumerator) (simp_all add: some_flag_def)
  from some_flag_single_bit r reachable_without_not_expressible [OF some_flag_single_bit r]
  show ?thesis by blast
qed

text \<open>
  With \<open>operator~\<close> the property fails on the header's own example:
  \<open>~flag_val1\<close> is reachable and has bits that no constant of \<open>some_flag\<close> has.
\<close>

theorem not_of_constant_not_expressible:
  "reach_flags True some_flag (not_flags (enum_flags_of_enum flag_val1))
   \<and> \<not> expressible some_flag (to_underlying (not_flags (enum_flags_of_enum flag_val1)))"
proof
  show "reach_flags True some_flag (not_flags (enum_flags_of_enum flag_val1))"
    by (intro flags_not of_enum enumerator) (simp_all add: some_flag_def)
  show "\<not> expressible some_flag (to_underlying (not_flags (enum_flags_of_enum flag_val1)))"
    by (simp add: expressible_def some_flag_def flag_val1_def flag_val2_def flag_val3_def
        flag_val4_def not_flags_def enum_flags_of_enum_def to_underlying_def)
qed

text \<open>
  The convention on the constants is needed as well: with the constants 3 and
  5, the value \<open>3 & 5 = 1\<close> is reachable without \<open>operator~\<close> and is not an OR
  of constants.
\<close>

lemma overlapping_constants_not_expressible:
  "reach_flags False [Enum 3, Enum 5 :: 32 word enum_type]
     (binop_enum_flags BitAnd (Enum 3) (enum_flags_of_enum (Enum 5)))
   \<and> \<not> expressible [Enum 3, Enum 5 :: 32 word enum_type]
       (to_underlying (binop_enum_flags BitAnd (Enum 3) (enum_flags_of_enum (Enum 5 :: 32 word enum_type))))"
proof
  show "reach_flags False [Enum 3, Enum 5 :: 32 word enum_type]
     (binop_enum_flags BitAnd (Enum 3) (enum_flags_of_enum (Enum 5)))"
    by (intro enum_flags of_enum enumerator) simp_all
  show "\<not> expressible [Enum 3, Enum 5 :: 32 word enum_type]
       (to_underlying (binop_enum_flags BitAnd (Enum 3) (enum_flags_of_enum (Enum 5 :: 32 word enum_type))))"
    by (simp add: expressible_def binop_enum_flags_def binop_enum_enum_def raw_def
        enum_flags_of_enum_def to_underlying_def)
qed

section \<open>The scenario of the header's introduction\<close>

text \<open>
  \<open>some_flags f = flag_val1 | flag_val2;\<close> then \<open>f |= flag_val3;\<close> then \<open>f = 0;\<close>
\<close>

lemma scenario:
  "to_underlying (enum_flags_of_enum (binop_enum_enum BitOr flag_val1 flag_val2)) = 6"
  "to_underlying (or_assign (enum_flags_of_enum (binop_enum_enum BitOr flag_val1 flag_val2))
      (enum_flags_of_enum flag_val3)) = 14"
  "to_underlying (assign (or_assign (enum_flags_of_enum (binop_enum_enum BitOr flag_val1 flag_val2))
      (enum_flags_of_enum flag_val3)) (enum_flags_of_zero NULL)) = 0"
  by (simp_all add: or_assign_def assign_def binop_enum_enum_def enum_flags_of_enum_def
      enum_flags_of_zero_def to_underlying_def flag_val1_def flag_val2_def flag_val3_def)

end
